theory Spec2Isabelle
  imports Complex_Main
begin

section \<open>The map screen of simple-map: data\<close>

text \<open>
  The screen is the React component \<open>HomePage\<close> of \<open>app/(tabs)/index.tsx\<close> (its latest
  revision, the one with tracking and the provider toggle). JavaScript numbers are
  modelled as \<open>real\<close>: the arithmetic of the screen is one comparison, one halving and one
  doubling, and rounding, infinities and NaN are outside the model.
\<close>

record Region =
  latitude :: real
  longitude :: real
  latitudeDelta :: real
  longitudeDelta :: real

definition DEFAULT_REGION :: Region where
  "DEFAULT_REGION =
     \<lparr>latitude = 50.4501, longitude = 30.5234, latitudeDelta = 0.0922, longitudeDelta = 0.0421\<rparr>"

definition MIN_ZOOM_DELTA :: real where
  "MIN_ZOOM_DELTA = 0.01"

definition MAX_ZOOM_DELTA :: real where
  "MAX_ZOOM_DELTA = 1.5"

text \<open>
  The values the state \<open>provider\<close> takes at run time are \<open>'expo'\<close> and
  \<open>'react-native-community'\<close> (the initial value and the two results of \<open>toggleProvider\<close>).
\<close>

datatype LocationProvider = Expo | ReactNativeCommunity

text \<open>
  A location object, \<open>{coords: {latitude, ...}, timestamp}\<close>, with the \<open>coords\<close> object
  flattened into the record. The nullable numbers are options.
\<close>

record LocationObject =
  coords_latitude :: real
  coords_longitude :: real
  coords_altitude :: "real option"
  coords_accuracy :: "real option"
  coords_altitudeAccuracy :: "real option"
  coords_heading :: "real option"
  coords_speed :: "real option"
  timestamp :: real

text \<open>
  What \<open>watchIdRef.current\<close> holds when it is not \<open>null\<close>: the number that
  \<open>Geolocation.watchPosition\<close> returned, or the function \<open>subscription.remove\<close> of the
  subscription that \<open>Location.watchPositionAsync\<close> resolved with.
\<close>

datatype WatchHandle = WatchId nat | SubscriptionRemove nat

text \<open>The option objects the screen passes to the two backends.\<close>

datatype Accuracy = Lowest | Low | Balanced | High | Highest | BestForNavigation

record ExpoOptions =
  accuracy :: Accuracy
  timeInterval :: "nat option"
  distanceInterval :: "nat option"

record GeoOptions =
  enableHighAccuracy :: bool
  timeout :: "nat option"
  maximumAge :: "nat option"
  distanceFilter :: "nat option"
  interval :: "nat option"

text \<open>
  The state of the screen. The first five fields are the \<open>useState\<close> cells and
  \<open>watchIdRef\<close> is the ref. The remaining fields belong to the two location backends: the
  watches each of them holds live, with the options they were registered with, and the
  identifier each hands out next. The map component (\<open>mapRef\<close>, \<open>animateToRegion\<close>) is
  driven by the screen and never read back; it is not part of the state.
\<close>

record HomePage =
  location :: "LocationObject option"
  errorMsg :: "string option"
  region :: Region
  provider :: LocationProvider
  isTracking :: bool
  watchIdRef :: "WatchHandle option"
  expoSubscriptions :: "(nat \<times> ExpoOptions) list"
  geolocationWatches :: "(nat \<times> GeoOptions) list"
  nextSubscription :: nat
  nextWatchId :: nat

definition initialState :: HomePage where
  "initialState =
     \<lparr>location = None, errorMsg = None, region = DEFAULT_REGION,
      provider = ReactNativeCommunity, isTracking = False, watchIdRef = None,
      expoSubscriptions = [], geolocationWatches = [],
      nextSubscription = 0, nextWatchId = 0\<rparr>"

text \<open>
  How a promise or a callback pair of a backend settles. A handler that awaits a backend
  is run in one step, with the answers of the backends given to it.
\<close>

datatype ('e, 'a) Promise = Resolved 'a | Rejected 'e

datatype PermissionStatus = Granted | Denied | Undetermined

datatype GeolocationError = PERMISSION_DENIED | POSITION_UNAVAILABLE | TIMEOUT

record Answers =
  requestForegroundPermissions :: "(unit, PermissionStatus) Promise"
  getCurrentPositionAsync :: "(unit, LocationObject) Promise"
  watchPositionAsync :: "(unit, unit) Promise"
  getCurrentPosition :: "(GeolocationError, LocationObject) Promise"

text \<open>A handler returns, or throws with the state as it was when the exception left it.\<close>

datatype JSError = TypeError

datatype Outcome = Returns HomePage | Throws JSError HomePage

fun stateOf :: "Outcome \<Rightarrow> HomePage" where
  "stateOf (Returns s) = s"
| "stateOf (Throws e s) = s"

fun returned :: "Outcome \<Rightarrow> bool" where
  "returned (Returns s) = True"
| "returned (Throws e s) = False"

section \<open>Zoom\<close>

definition zoomIn :: "HomePage \<Rightarrow> HomePage" where
  "zoomIn s =
     (if latitudeDelta (region s) > MIN_ZOOM_DELTA
      then s\<lparr>region := (region s)\<lparr>latitudeDelta := latitudeDelta (region s) / 2,
                                   longitudeDelta := longitudeDelta (region s) / 2\<rparr>\<rparr>
      else s)"

definition zoomOut :: "HomePage \<Rightarrow> HomePage" where
  "zoomOut s =
     (if latitudeDelta (region s) < MAX_ZOOM_DELTA
      then s\<lparr>region := (region s)\<lparr>latitudeDelta := latitudeDelta (region s) * 2,
                                   longitudeDelta := longitudeDelta (region s) * 2\<rparr>\<rparr>
      else s)"

section \<open>One-shot location\<close>

text \<open>
  \<open>getExpoLocation\<close> writes the state itself and has no \<open>return\<close> with a value: the promise
  it returns always resolves with \<open>undefined\<close> (\<open>None\<close>), also after its own \<open>catch\<close>.
\<close>

definition getExpoLocation ::
  "Answers \<Rightarrow> HomePage \<Rightarrow> (GeolocationError, LocationObject option) Promise \<times> HomePage" where
  "getExpoLocation a s =
     (case requestForegroundPermissions a of
        Rejected _ \<Rightarrow> (Resolved None, s\<lparr>errorMsg := Some ''Error getting location''\<rparr>)
      | Resolved status \<Rightarrow>
          if status \<noteq> Granted
          then (Resolved None, s\<lparr>errorMsg := Some ''Permission to access location was denied''\<rparr>)
          else (case getCurrentPositionAsync a of
                  Rejected _ \<Rightarrow> (Resolved None, s\<lparr>errorMsg := Some ''Error getting location''\<rparr>)
                | Resolved currentLocation \<Rightarrow>
                    (Resolved None,
                     s\<lparr>location := Some currentLocation,
                       region := \<lparr>latitude = coords_latitude currentLocation,
                                  longitude = coords_longitude currentLocation,
                                  latitudeDelta = 0.01, longitudeDelta = 0.01\<rparr>\<rparr>)))"

definition getRNLocation ::
  "Answers \<Rightarrow> HomePage \<Rightarrow> (GeolocationError, LocationObject option) Promise \<times> HomePage" where
  "getRNLocation a s =
     (case getCurrentPosition a of
        Resolved position \<Rightarrow>
          (Resolved (Some \<lparr>coords_latitude = coords_latitude position,
                           coords_longitude = coords_longitude position,
                           coords_altitude = coords_altitude position,
                           coords_accuracy = coords_accuracy position,
                           coords_altitudeAccuracy = coords_altitudeAccuracy position,
                           coords_heading = coords_heading position,
                           coords_speed = coords_speed position,
                           timestamp = timestamp position\<rparr>), s)
      | Rejected error \<Rightarrow> (Rejected error, s))"

text \<open>
  The options that \<open>getRNLocation\<close> passes to \<open>Geolocation.getCurrentPosition\<close>. How the
  backend answers is an input of the model, so nothing below depends on them.
\<close>

definition GET_CURRENT_POSITION_OPTIONS :: GeoOptions where
  "GET_CURRENT_POSITION_OPTIONS =
     \<lparr>enableHighAccuracy = True, timeout = Some 15000, maximumAge = Some 10000,
      distanceFilter = None, interval = None\<rparr>"

text \<open>\<open>getLocation\<close> as the render whose \<open>provider\<close> is \<open>p\<close> defines it.\<close>

definition getLocation :: "LocationProvider \<Rightarrow> Answers \<Rightarrow> HomePage \<Rightarrow> HomePage" where
  "getLocation p a s =
     (case (if p = Expo then getExpoLocation a s else getRNLocation a s) of
        (Rejected error, s') \<Rightarrow> s'\<lparr>errorMsg := Some ''Error getting location''\<rparr>
      | (Resolved None, s') \<Rightarrow> s'
      | (Resolved (Some currentLocation), s') \<Rightarrow>
          s'\<lparr>location := Some currentLocation,
             region := \<lparr>latitude = coords_latitude currentLocation,
                        longitude = coords_longitude currentLocation,
                        latitudeDelta = 0.01, longitudeDelta = 0.01\<rparr>\<rparr>)"

section \<open>Tracking\<close>

definition updateRegion :: "LocationObject \<Rightarrow> HomePage \<Rightarrow> HomePage" where
  "updateRegion newLocation s =
     s\<lparr>region := \<lparr>latitude = coords_latitude newLocation,
                   longitude = coords_longitude newLocation,
                   latitudeDelta = 0.01, longitudeDelta = 0.01\<rparr>\<rparr>"

text \<open>The callbacks that \<open>startTracking\<close> hands to the two backends.\<close>

definition expoWatchCallback :: "LocationObject \<Rightarrow> HomePage \<Rightarrow> HomePage" where
  "expoWatchCallback newLocation s = updateRegion newLocation (s\<lparr>location := Some newLocation\<rparr>)"

definition geolocationWatchSuccess :: "LocationObject \<Rightarrow> HomePage \<Rightarrow> HomePage" where
  "geolocationWatchSuccess position s =
     (let newLocation = \<lparr>coords_latitude = coords_latitude position,
                         coords_longitude = coords_longitude position,
                         coords_altitude = coords_altitude position,
                         coords_accuracy = coords_accuracy position,
                         coords_altitudeAccuracy = coords_altitudeAccuracy position,
                         coords_heading = coords_heading position,
                         coords_speed = coords_speed position,
                         timestamp = timestamp position\<rparr>
      in updateRegion newLocation (s\<lparr>location := Some newLocation\<rparr>))"

definition geolocationWatchError :: "GeolocationError \<Rightarrow> HomePage \<Rightarrow> HomePage" where
  "geolocationWatchError error s = s\<lparr>errorMsg := Some ''Error tracking location''\<rparr>"

definition WATCH_POSITION_ASYNC_OPTIONS :: ExpoOptions where
  "WATCH_POSITION_ASYNC_OPTIONS =
     \<lparr>accuracy = Balanced, timeInterval = Some 5000, distanceInterval = Some 10\<rparr>"

definition WATCH_POSITION_OPTIONS :: GeoOptions where
  "WATCH_POSITION_OPTIONS =
     \<lparr>enableHighAccuracy = True, timeout = None, maximumAge = None,
      distanceFilter = Some 10, interval = Some 5000\<rparr>"

text \<open>
  \<open>startTracking\<close> as the render whose \<open>provider\<close> is \<open>p\<close> defines it. A backend that
  starts a watch enters it in its registry under a fresh identifier. The whole body is
  inside \<open>try\<close>/\<open>catch\<close>, so the handler does not throw.
\<close>

definition startTracking :: "LocationProvider \<Rightarrow> Answers \<Rightarrow> HomePage \<Rightarrow> HomePage" where
  "startTracking p a s =
     (if p = Expo then
        (case requestForegroundPermissions a of
           Rejected _ \<Rightarrow> s\<lparr>errorMsg := Some ''Error starting location tracking''\<rparr>
         | Resolved status \<Rightarrow>
             if status \<noteq> Granted
             then s\<lparr>errorMsg := Some ''Permission to access location was denied''\<rparr>
             else (case watchPositionAsync a of
                     Rejected _ \<Rightarrow> s\<lparr>errorMsg := Some ''Error starting location tracking''\<rparr>
                   | Resolved _ \<Rightarrow>
                       s\<lparr>expoSubscriptions :=
                            expoSubscriptions s @ [(nextSubscription s, WATCH_POSITION_ASYNC_OPTIONS)],
                         nextSubscription := nextSubscription s + 1,
                         watchIdRef := Some (SubscriptionRemove (nextSubscription s)),
                         isTracking := True\<rparr>))
      else
        s\<lparr>geolocationWatches := geolocationWatches s @ [(nextWatchId s, WATCH_POSITION_OPTIONS)],
          nextWatchId := nextWatchId s + 1,
          watchIdRef := Some (WatchId (nextWatchId s)),
          isTracking := True\<rparr>)"

text \<open>
  The two ways \<open>stopTracking\<close> releases what \<open>watchIdRef.current\<close> holds. Calling it as a
  function runs \<open>subscription.remove\<close> when it is one, and is a \<open>TypeError\<close> when it is a
  number. \<open>Geolocation.clearWatch\<close> ends the watch with that number; an argument that is
  not the number of a watch (the \<open>remove\<close> function of an Expo subscription) ends nothing.
\<close>

definition removeEntry :: "nat \<Rightarrow> (nat \<times> 'o) list \<Rightarrow> (nat \<times> 'o) list" where
  "removeEntry n ws = filter (\<lambda>w. fst w \<noteq> n) ws"

fun callHandle :: "WatchHandle \<Rightarrow> HomePage \<Rightarrow> Outcome" where
  "callHandle (SubscriptionRemove n) s =
     Returns (s\<lparr>expoSubscriptions := removeEntry n (expoSubscriptions s)\<rparr>)"
| "callHandle (WatchId n) s = Throws TypeError s"

fun clearWatch :: "WatchHandle \<Rightarrow> HomePage \<Rightarrow> HomePage" where
  "clearWatch (WatchId n) s = s\<lparr>geolocationWatches := removeEntry n (geolocationWatches s)\<rparr>"
| "clearWatch (SubscriptionRemove n) s = s"

text \<open>\<open>stopTracking\<close> as the render whose \<open>provider\<close> is \<open>p\<close> defines it.\<close>

definition stopTracking :: "LocationProvider \<Rightarrow> HomePage \<Rightarrow> Outcome" where
  "stopTracking p s =
     (case watchIdRef s of
        None \<Rightarrow> Returns (s\<lparr>isTracking := False\<rparr>)
      | Some h \<Rightarrow>
          if p = Expo then
            (case callHandle h s of
               Throws e s' \<Rightarrow> Throws e s'
             | Returns s' \<Rightarrow> Returns (s'\<lparr>watchIdRef := None, isTracking := False\<rparr>))
          else Returns ((clearWatch h s)\<lparr>watchIdRef := None, isTracking := False\<rparr>))"

section \<open>The provider toggle and the effects\<close>

definition toggleProvider :: "HomePage \<Rightarrow> HomePage" where
  "toggleProvider s =
     s\<lparr>provider := (if provider s = Expo then ReactNativeCommunity else Expo)\<rparr>"

text \<open>
  The effect with dependency \<open>[provider]\<close>. It runs after the first render and after
  every render in which \<open>provider\<close> has changed, with the handlers of that render, whose
  \<open>provider\<close> and \<open>isTracking\<close> are the ones of the state.
\<close>

definition providerEffect :: "Answers \<Rightarrow> HomePage \<Rightarrow> Outcome" where
  "providerEffect a s =
     (if isTracking s then
        (case stopTracking (provider s) s of
           Throws e s' \<Rightarrow> Throws e s'
         | Returns s' \<Rightarrow> Returns (startTracking (provider s) a s'))
      else Returns (getLocation (provider s) a s))"

text \<open>
  The effect with dependency \<open>[]\<close> registers its cleanup at the first render, so the
  \<open>stopTracking\<close> it calls at unmount is the one of the first render, whose \<open>provider\<close> is
  the initial one.
\<close>

definition unmount :: "HomePage \<Rightarrow> Outcome" where
  "unmount s = stopTracking (provider initialState) s"

section \<open>Events\<close>

text \<open>
  What can happen to the mounted screen: the first effect, a press on one of its controls,
  a region change reported by the map, a callback of a live watch, and the unmount. The
  controls and the map are rendered only while \<open>errorMsg\<close> is \<open>null\<close>, and each zoom
  button is disabled at its bound. A backend calls back only for a watch it holds live.
\<close>

datatype Event =
    Mount Answers
  | PressProvider Answers
  | PressLocation Answers
  | PressTracking Answers
  | PressZoomIn
  | PressZoomOut
  | RegionChangeComplete Region
  | ExpoFix nat LocationObject
  | GeolocationFix nat LocationObject
  | GeolocationFailure nat GeolocationError
  | Unmount

fun step :: "Event \<Rightarrow> HomePage \<Rightarrow> Outcome" where
  "step (Mount a) s = providerEffect a s"
| "step (PressProvider a) s =
     (if errorMsg s \<noteq> None then Returns s else providerEffect a (toggleProvider s))"
| "step (PressLocation a) s =
     (if errorMsg s \<noteq> None then Returns s else Returns (getLocation (provider s) a s))"
| "step (PressTracking a) s =
     (if errorMsg s \<noteq> None then Returns s
      else if isTracking s then stopTracking (provider s) s
      else Returns (startTracking (provider s) a s))"
| "step PressZoomIn s =
     (if errorMsg s \<noteq> None then Returns s
      else if latitudeDelta (region s) \<le> MIN_ZOOM_DELTA then Returns s
      else Returns (zoomIn s))"
| "step PressZoomOut s =
     (if errorMsg s \<noteq> None then Returns s
      else if latitudeDelta (region s) \<ge> MAX_ZOOM_DELTA then Returns s
      else Returns (zoomOut s))"
| "step (RegionChangeComplete r) s =
     (if errorMsg s \<noteq> None then Returns s else Returns (s\<lparr>region := r\<rparr>))"
| "step (ExpoFix n newLocation) s =
     (if n \<in> fst ` set (expoSubscriptions s) then Returns (expoWatchCallback newLocation s)
      else Returns s)"
| "step (GeolocationFix n position) s =
     (if n \<in> fst ` set (geolocationWatches s) then Returns (geolocationWatchSuccess position s)
      else Returns s)"
| "step (GeolocationFailure n error) s =
     (if n \<in> fst ` set (geolocationWatches s) then Returns (geolocationWatchError error s)
      else Returns s)"
| "step Unmount s = unmount s"

text \<open>A run of events. An exception that leaves a handler or an effect ends the run.\<close>

fun run :: "Event list \<Rightarrow> HomePage \<Rightarrow> Outcome" where
  "run [] s = Returns s"
| "run (e # es) s =
     (case step e s of
        Throws err s' \<Rightarrow> Throws err s'
      | Returns s' \<Rightarrow> run es s')"

section \<open>Concrete inputs\<close>

definition kyiv :: LocationObject where
  "kyiv =
     \<lparr>coords_latitude = 50.45, coords_longitude = 30.52, coords_altitude = None,
      coords_accuracy = Some 5, coords_altitudeAccuracy = None, coords_heading = None,
      coords_speed = None, timestamp = 0\<rparr>"

definition lviv :: LocationObject where
  "lviv =
     \<lparr>coords_latitude = 49.84, coords_longitude = 24.03, coords_altitude = None,
      coords_accuracy = Some 5, coords_altitudeAccuracy = None, coords_heading = None,
      coords_speed = None, timestamp = 1\<rparr>"

text \<open>Backends that grant the permission and answer with \<open>kyiv\<close>.\<close>

definition granted :: Answers where
  "granted =
     \<lparr>requestForegroundPermissions = Resolved Granted,
      getCurrentPositionAsync = Resolved kyiv,
      watchPositionAsync = Resolved (),
      getCurrentPosition = Resolved kyiv\<rparr>"

text \<open>
  Backends after the user has declined the permission prompt: Expo reports the status
  \<open>denied\<close>, the community geolocation calls the error callback with \<open>PERMISSION_DENIED\<close>.
\<close>

definition declined :: Answers where
  "declined =
     \<lparr>requestForegroundPermissions = Resolved Denied,
      getCurrentPositionAsync = Rejected (),
      watchPositionAsync = Rejected (),
      getCurrentPosition = Rejected PERMISSION_DENIED\<rparr>"

text \<open>The same backends when the community geolocation times out instead.\<close>

definition timedOut :: Answers where
  "timedOut = declined\<lparr>getCurrentPosition := Rejected TIMEOUT\<rparr>"

text \<open>
  The screen is mounted, switched to Expo, tracking is started and a first fix arrives.
\<close>

definition trackingOnExpo :: "Event list" where
  "trackingOnExpo =
     [Mount granted, PressProvider granted, PressTracking granted, ExpoFix 0 kyiv]"

text \<open>The screen is mounted and tracking is started on the initial provider.\<close>

definition trackingOnCommunity :: "Event list" where
  "trackingOnCommunity = [Mount granted, PressTracking granted]"

text \<open>The ref holds a handle exactly when the screen says it is tracking.\<close>

definition watchInvariant :: "HomePage \<Rightarrow> bool" where
  "watchInvariant s = ((watchIdRef s \<noteq> None) = isTracking s)"

text \<open>Five zoom-out steps from the default region.\<close>

definition zoomedOut :: HomePage where
  "zoomedOut = zoomOut (zoomOut (zoomOut (zoomOut (zoomOut initialState))))"

text \<open>The provider is toggled while the screen is tracking on Expo.\<close>

definition switchedToCommunity :: "Event list" where
  "switchedToCommunity = trackingOnExpo @ [PressProvider granted]"

text \<open>The screen after its first effect, with the fix \<open>kyiv\<close> on display.\<close>

definition located :: HomePage where
  "located = stateOf (run [Mount granted] initialState)"

section \<open>The watch handle and the tracking flag\<close>

lemma watchInvariant_getLocation:
  "watchInvariant s \<Longrightarrow> watchInvariant (getLocation p a s)"
  by (auto simp: watchInvariant_def getLocation_def getExpoLocation_def getRNLocation_def
      split: Promise.splits option.splits)

lemma watchInvariant_startTracking:
  "watchInvariant s \<Longrightarrow> watchInvariant (startTracking p a s)"
  by (auto simp: watchInvariant_def startTracking_def split: Promise.splits)

lemma watchInvariant_stopTracking:
  "watchInvariant s \<Longrightarrow> watchInvariant (stateOf (stopTracking p s))"
  by (cases "watchIdRef s"; cases "the (watchIdRef s)")
     (auto simp: watchInvariant_def stopTracking_def)

lemma stopTracking_Returns_watchInvariant:
  "stopTracking p s = Returns s' \<Longrightarrow> watchInvariant s'"
  by (cases "watchIdRef s"; cases "the (watchIdRef s)")
     (auto simp: watchInvariant_def stopTracking_def split: if_splits)

lemma watchInvariant_providerEffect:
  "watchInvariant s \<Longrightarrow> watchInvariant (stateOf (providerEffect a s))"
  using watchInvariant_stopTracking [of s "provider s"]
    stopTracking_Returns_watchInvariant [of "provider s" s]
  by (auto simp: providerEffect_def watchInvariant_getLocation watchInvariant_startTracking
      split: Outcome.splits)

lemma watchInvariant_step:
  assumes "watchInvariant s"
  shows "watchInvariant (stateOf (step e s))"
proof (cases e)
  case (Mount a)
  then show ?thesis using assms by (simp add: watchInvariant_providerEffect)
next
  case (PressProvider a)
  have "watchInvariant (toggleProvider s)"
    using assms by (simp add: watchInvariant_def toggleProvider_def)
  then show ?thesis using PressProvider assms by (simp add: watchInvariant_providerEffect)
next
  case (PressLocation a)
  then show ?thesis using assms by (simp add: watchInvariant_getLocation)
next
  case (PressTracking a)
  then show ?thesis
    using assms by (simp add: watchInvariant_startTracking watchInvariant_stopTracking)
next
  case PressZoomIn
  then show ?thesis using assms by (simp add: watchInvariant_def zoomIn_def)
next
  case PressZoomOut
  then show ?thesis using assms by (simp add: watchInvariant_def zoomOut_def)
next
  case (RegionChangeComplete r)
  then show ?thesis using assms by (simp add: watchInvariant_def)
next
  case (ExpoFix n newLocation)
  then show ?thesis
    using assms by (simp add: watchInvariant_def expoWatchCallback_def updateRegion_def)
next
  case (GeolocationFix n position)
  then show ?thesis
    using assms
    by (simp add: watchInvariant_def geolocationWatchSuccess_def updateRegion_def Let_def)
next
  case (GeolocationFailure n error)
  then show ?thesis using assms by (simp add: watchInvariant_def geolocationWatchError_def)
next
  case Unmount
  then show ?thesis using assms by (simp add: unmount_def watchInvariant_stopTracking)
qed

lemma watchInvariant_run:
  "watchInvariant s \<Longrightarrow> watchInvariant (stateOf (run es s))"
proof (induction es arbitrary: s)
  case Nil
  then show ?case by simp
next
  case (Cons e es)
  have after: "watchInvariant (stateOf (step e s))"
    using Cons.prems by (rule watchInvariant_step)
  show ?case
  proof (cases "step e s")
    case (Returns s')
    then have "watchInvariant s'" using after by simp
    then have "watchInvariant (stateOf (run es s'))" by (rule Cons.IH)
    then show ?thesis using Returns by simp
  next
    case (Throws err s')
    then have "watchInvariant s'" using after by simp
    then show ?thesis using Throws by simp
  qed
qed

text \<open>
  Claim C4. In every state that a run of events reaches from the initial state (presses
  on the tracking, provider and location controls, callbacks of the watches, the unmount;
  also the state an exception leaves behind), \<open>watchIdRef.current\<close> is not \<open>null\<close> if and
  only if \<open>isTracking\<close> is true.
\<close>

theorem watch_handle_iff_isTracking:
  "(watchIdRef (stateOf (run es initialState)) \<noteq> None) =
     isTracking (stateOf (run es initialState))"
  using watchInvariant_run [of initialState es]
  by (simp add: watchInvariant_def initialState_def)

section \<open>Zoom steps\<close>

lemma region_zoomedOut:
  "region zoomedOut =
     \<lparr>latitude = 50.4501, longitude = 30.5234, latitudeDelta = 2.9504, longitudeDelta = 1.3472\<rparr>"
  by (simp add: zoomedOut_def zoomOut_def initialState_def DEFAULT_REGION_def MAX_ZOOM_DELTA_def)

text \<open>
  Claim C5. When \<open>latitudeDelta\<close> of the region is above \<open>MIN_ZOOM_DELTA\<close>, which is 0.01,
  \<open>zoomIn\<close> halves \<open>latitudeDelta\<close> and \<open>longitudeDelta\<close>; when it is at or below
  \<open>MIN_ZOOM_DELTA\<close>, \<open>zoomIn\<close> changes nothing.
\<close>

theorem zoomIn_halves_above_min:
  "MIN_ZOOM_DELTA = 0.01 \<and>
   (latitudeDelta (region s) > MIN_ZOOM_DELTA \<longrightarrow>
      latitudeDelta (region (zoomIn s)) = latitudeDelta (region s) / 2 \<and>
      longitudeDelta (region (zoomIn s)) = longitudeDelta (region s) / 2) \<and>
   (latitudeDelta (region s) \<le> MIN_ZOOM_DELTA \<longrightarrow> zoomIn s = s)"
proof (intro conjI impI)
  show "MIN_ZOOM_DELTA = 0.01"
    by (simp add: MIN_ZOOM_DELTA_def)
next
  assume "MIN_ZOOM_DELTA < latitudeDelta (region s)"
  then show "latitudeDelta (region (zoomIn s)) = latitudeDelta (region s) / 2"
    by (simp add: zoomIn_def)
next
  assume "MIN_ZOOM_DELTA < latitudeDelta (region s)"
  then show "longitudeDelta (region (zoomIn s)) = longitudeDelta (region s) / 2"
    by (simp add: zoomIn_def)
next
  assume "latitudeDelta (region s) \<le> MIN_ZOOM_DELTA"
  then show "zoomIn s = s"
    by (simp add: zoomIn_def)
qed

theorem zoomIn_halves_above_min_witness:
  "MIN_ZOOM_DELTA < latitudeDelta (region initialState) \<and>
   latitudeDelta (region (zoomIn initialState)) = 0.0461 \<and>
   longitudeDelta (region (zoomIn initialState)) = 0.02105 \<and>
   latitudeDelta (region (updateRegion kyiv initialState)) \<le> MIN_ZOOM_DELTA \<and>
   zoomIn (updateRegion kyiv initialState) = updateRegion kyiv initialState"
  using zoomIn_halves_above_min [of initialState]
    zoomIn_halves_above_min [of "updateRegion kyiv initialState"]
  by (simp add: initialState_def DEFAULT_REGION_def MIN_ZOOM_DELTA_def updateRegion_def)

text \<open>
  Claim C6. When \<open>latitudeDelta\<close> of the region is below \<open>MAX_ZOOM_DELTA\<close>, which is 1.5,
  \<open>zoomOut\<close> doubles \<open>latitudeDelta\<close> and \<open>longitudeDelta\<close>; when it is at or above
  \<open>MAX_ZOOM_DELTA\<close>, \<open>zoomOut\<close> changes nothing.
\<close>

theorem zoomOut_doubles_below_max:
  "MAX_ZOOM_DELTA = 1.5 \<and>
   (latitudeDelta (region s) < MAX_ZOOM_DELTA \<longrightarrow>
      latitudeDelta (region (zoomOut s)) = latitudeDelta (region s) * 2 \<and>
      longitudeDelta (region (zoomOut s)) = longitudeDelta (region s) * 2) \<and>
   (latitudeDelta (region s) \<ge> MAX_ZOOM_DELTA \<longrightarrow> zoomOut s = s)"
proof (intro conjI impI)
  show "MAX_ZOOM_DELTA = 1.5"
    by (simp add: MAX_ZOOM_DELTA_def)
next
  assume below: "latitudeDelta (region s) < MAX_ZOOM_DELTA"
  show "latitudeDelta (region (zoomOut s)) = latitudeDelta (region s) * 2"
    using below by (simp add: zoomOut_def)
  show "longitudeDelta (region (zoomOut s)) = longitudeDelta (region s) * 2"
    using below by (simp add: zoomOut_def)
next
  assume "MAX_ZOOM_DELTA \<le> latitudeDelta (region s)"
  then show "zoomOut s = s"
    by (simp add: zoomOut_def)
qed

theorem zoomOut_doubles_below_max_witness:
  "latitudeDelta (region initialState) < MAX_ZOOM_DELTA \<and>
   latitudeDelta (region (zoomOut initialState)) = 0.1844 \<and>
   longitudeDelta (region (zoomOut initialState)) = 0.0842 \<and>
   MAX_ZOOM_DELTA \<le> latitudeDelta (region zoomedOut) \<and>
   zoomOut zoomedOut = zoomedOut"
proof -
  have below: "latitudeDelta (region initialState) < MAX_ZOOM_DELTA"
    by (simp add: initialState_def DEFAULT_REGION_def MAX_ZOOM_DELTA_def)
  have above: "MAX_ZOOM_DELTA \<le> latitudeDelta (region zoomedOut)"
    by (simp add: region_zoomedOut MAX_ZOOM_DELTA_def)
  have "latitudeDelta (region (zoomOut initialState)) = latitudeDelta (region initialState) * 2"
    and "longitudeDelta (region (zoomOut initialState)) = longitudeDelta (region initialState) * 2"
    using zoomOut_doubles_below_max [of initialState] below by blast+
  then have "latitudeDelta (region (zoomOut initialState)) = 0.1844"
    and "longitudeDelta (region (zoomOut initialState)) = 0.0842"
    by (simp_all add: initialState_def DEFAULT_REGION_def)
  moreover have "zoomOut zoomedOut = zoomedOut"
    using zoomOut_doubles_below_max [of zoomedOut] above by blast
  ultimately show ?thesis
    using below above by blast
qed

text \<open>
  Claim C10. \<open>zoomIn\<close> and \<open>zoomOut\<close> keep the centre of the region: \<open>latitude\<close> and
  \<open>longitude\<close> of the result are those of the input, and the result differs from the
  input in nothing but \<open>latitudeDelta\<close> and \<open>longitudeDelta\<close> of the region.
\<close>

theorem zoom_keeps_center:
  "latitude (region (zoomIn s)) = latitude (region s) \<and>
   longitude (region (zoomIn s)) = longitude (region s) \<and>
   zoomIn s = s\<lparr>region := (region s)\<lparr>latitudeDelta := latitudeDelta (region (zoomIn s)),
                                      longitudeDelta := longitudeDelta (region (zoomIn s))\<rparr>\<rparr> \<and>
   latitude (region (zoomOut s)) = latitude (region s) \<and>
   longitude (region (zoomOut s)) = longitude (region s) \<and>
   zoomOut s = s\<lparr>region := (region s)\<lparr>latitudeDelta := latitudeDelta (region (zoomOut s)),
                                       longitudeDelta := longitudeDelta (region (zoomOut s))\<rparr>\<rparr>"
  by (simp add: zoomIn_def zoomOut_def)

section \<open>Fixes and failures of the one-shot request\<close>

lemmas handler_defs =
  getLocation_def getExpoLocation_def getRNLocation_def expoWatchCallback_def
  geolocationWatchSuccess_def geolocationWatchError_def updateRegion_def
  startTracking_def stopTracking_def toggleProvider_def providerEffect_def
  unmount_def removeEntry_def

lemmas input_defs =
  initialState_def granted_def declined_def timedOut_def kyiv_def lviv_def
  trackingOnExpo_def trackingOnCommunity_def switchedToCommunity_def

lemma run_switchedToCommunity:
  "run switchedToCommunity initialState =
     Returns \<lparr>location = Some kyiv, errorMsg = None,
              region = \<lparr>latitude = 50.45, longitude = 30.52,
                         latitudeDelta = 0.01, longitudeDelta = 0.01\<rparr>,
              provider = ReactNativeCommunity, isTracking = True,
              watchIdRef = Some (WatchId 0),
              expoSubscriptions = [(0, WATCH_POSITION_ASYNC_OPTIONS)],
              geolocationWatches = [(0, WATCH_POSITION_OPTIONS)],
              nextSubscription = 1, nextWatchId = 1\<rparr>"
  by (simp add: handler_defs input_defs)

lemma located_eq:
  "located = initialState\<lparr>location := Some kyiv,
     region := \<lparr>latitude = 50.45, longitude = 30.52,
                latitudeDelta = 0.01, longitudeDelta = 0.01\<rparr>\<rparr>"
  by (simp add: located_def handler_defs input_defs)

text \<open>
  Claim C2. Every successful fix is stored in \<open>location\<close> and puts the region on the
  latitude and longitude of the fix with both deltas 0.01, whatever the region was: a fix
  that \<open>getLocation\<close> obtains from Expo (permission granted, position resolved) or from
  the community geolocation (success callback), and a fix that a live watch of either
  backend delivers to its callback.
\<close>

theorem fix_updates_location_and_region:
  "(requestForegroundPermissions a = Resolved Granted \<and>
    getCurrentPositionAsync a = Resolved fix \<longrightarrow>
      location (getLocation Expo a s) = Some fix \<and>
      region (getLocation Expo a s) =
        \<lparr>latitude = coords_latitude fix, longitude = coords_longitude fix,
         latitudeDelta = 0.01, longitudeDelta = 0.01\<rparr>) \<and>
   (getCurrentPosition a = Resolved fix \<longrightarrow>
      location (getLocation ReactNativeCommunity a s) = Some fix \<and>
      region (getLocation ReactNativeCommunity a s) =
        \<lparr>latitude = coords_latitude fix, longitude = coords_longitude fix,
         latitudeDelta = 0.01, longitudeDelta = 0.01\<rparr>) \<and>
   (n \<in> fst ` set (expoSubscriptions s) \<longrightarrow>
      location (stateOf (step (ExpoFix n fix) s)) = Some fix \<and>
      region (stateOf (step (ExpoFix n fix) s)) =
        \<lparr>latitude = coords_latitude fix, longitude = coords_longitude fix,
         latitudeDelta = 0.01, longitudeDelta = 0.01\<rparr>) \<and>
   (n \<in> fst ` set (geolocationWatches s) \<longrightarrow>
      location (stateOf (step (GeolocationFix n fix) s)) = Some fix \<and>
      region (stateOf (step (GeolocationFix n fix) s)) =
        \<lparr>latitude = coords_latitude fix, longitude = coords_longitude fix,
         latitudeDelta = 0.01, longitudeDelta = 0.01\<rparr>)"
proof (intro conjI impI)
  assume "requestForegroundPermissions a = Resolved Granted \<and>
    getCurrentPositionAsync a = Resolved fix"
  then show "location (getLocation Expo a s) = Some fix"
    and "region (getLocation Expo a s) =
        \<lparr>latitude = coords_latitude fix, longitude = coords_longitude fix,
         latitudeDelta = 0.01, longitudeDelta = 0.01\<rparr>"
    by (simp_all add: getLocation_def getExpoLocation_def)
next
  assume "getCurrentPosition a = Resolved fix"
  then show "location (getLocation ReactNativeCommunity a s) = Some fix"
    and "region (getLocation ReactNativeCommunity a s) =
        \<lparr>latitude = coords_latitude fix, longitude = coords_longitude fix,
         latitudeDelta = 0.01, longitudeDelta = 0.01\<rparr>"
    by (simp_all add: getLocation_def getRNLocation_def)
next
  assume "n \<in> fst ` set (expoSubscriptions s)"
  then show "location (stateOf (step (ExpoFix n fix) s)) = Some fix"
    and "region (stateOf (step (ExpoFix n fix) s)) =
        \<lparr>latitude = coords_latitude fix, longitude = coords_longitude fix,
         latitudeDelta = 0.01, longitudeDelta = 0.01\<rparr>"
    by (simp_all add: expoWatchCallback_def updateRegion_def)
next
  assume "n \<in> fst ` set (geolocationWatches s)"
  then show "location (stateOf (step (GeolocationFix n fix) s)) = Some fix"
    and "region (stateOf (step (GeolocationFix n fix) s)) =
        \<lparr>latitude = coords_latitude fix, longitude = coords_longitude fix,
         latitudeDelta = 0.01, longitudeDelta = 0.01\<rparr>"
    by (simp_all add: geolocationWatchSuccess_def updateRegion_def)
qed

theorem fix_updates_location_and_region_witness:
  "requestForegroundPermissions granted = Resolved Granted \<and>
   getCurrentPositionAsync granted = Resolved kyiv \<and>
   getCurrentPosition granted = Resolved kyiv \<and>
   0 \<in> fst ` set (expoSubscriptions (stateOf (run switchedToCommunity initialState))) \<and>
   0 \<in> fst ` set (geolocationWatches (stateOf (run switchedToCommunity initialState))) \<and>
   location (getLocation Expo granted zoomedOut) = Some kyiv \<and>
   region (getLocation Expo granted zoomedOut) =
     \<lparr>latitude = 50.45, longitude = 30.52, latitudeDelta = 0.01, longitudeDelta = 0.01\<rparr> \<and>
   location (getLocation ReactNativeCommunity granted zoomedOut) = Some kyiv \<and>
   region (getLocation ReactNativeCommunity granted zoomedOut) =
     \<lparr>latitude = 50.45, longitude = 30.52, latitudeDelta = 0.01, longitudeDelta = 0.01\<rparr> \<and>
   location (stateOf (step (ExpoFix 0 kyiv) (stateOf (run switchedToCommunity initialState))))
     = Some kyiv \<and>
   location (stateOf (step (GeolocationFix 0 kyiv) (stateOf (run switchedToCommunity initialState))))
     = Some kyiv"
proof -
  have answers: "requestForegroundPermissions granted = Resolved Granted"
    "getCurrentPositionAsync granted = Resolved kyiv"
    "getCurrentPosition granted = Resolved kyiv"
    by (simp_all add: granted_def)
  have live: "0 \<in> fst ` set (expoSubscriptions (stateOf (run switchedToCommunity initialState)))"
    "0 \<in> fst ` set (geolocationWatches (stateOf (run switchedToCommunity initialState)))"
    by (simp_all add: run_switchedToCommunity)
  have coords: "coords_latitude kyiv = 50.45" "coords_longitude kyiv = 30.52"
    by (simp_all add: kyiv_def)
  show ?thesis
    using fix_updates_location_and_region [of granted kyiv zoomedOut 0]
      fix_updates_location_and_region
        [of granted kyiv "stateOf (run switchedToCommunity initialState)" 0]
      answers live
    unfolding coords
    by blast
qed

text \<open>
  No failure writes \<open>location\<close> or the region. A one-shot request that fails, on either
  provider and for whatever reason (the permission promise rejects, the status is not
  \<open>granted\<close>, the position promise rejects, the error callback is called), sets
  \<open>errorMsg\<close> and nothing else; \<open>startTracking\<close>, \<open>stopTracking\<close> and the error callback
  of the community watch never write the two at all.
\<close>

lemma getLocation_failure_keeps_fix_and_region:
  assumes "p = Expo \<Longrightarrow>
      \<not> (requestForegroundPermissions a = Resolved Granted \<and>
         (\<exists>fix. getCurrentPositionAsync a = Resolved fix))"
    and "p \<noteq> Expo \<Longrightarrow> \<exists>error. getCurrentPosition a = Rejected error"
  shows "location (getLocation p a s) = location s \<and>
         region (getLocation p a s) = region s \<and>
         errorMsg (getLocation p a s) \<noteq> None \<and>
         getLocation p a s = s\<lparr>errorMsg := errorMsg (getLocation p a s)\<rparr>"
proof (cases "p = Expo")
  case True
  then show ?thesis
    using assms(1)
    by (cases "requestForegroundPermissions a"; cases "getCurrentPositionAsync a")
       (auto simp: getLocation_def getExpoLocation_def)
next
  case False
  then show ?thesis
    using assms(2) by (auto simp: getLocation_def getRNLocation_def)
qed

lemma startTracking_keeps_fix_and_region:
  "location (startTracking p a s) = location s \<and> region (startTracking p a s) = region s"
  by (simp add: startTracking_def split: Promise.splits)

lemma stopTracking_keeps_fix_and_region:
  "location (stateOf (stopTracking p s)) = location s \<and>
   region (stateOf (stopTracking p s)) = region s"
  by (cases "watchIdRef s"; cases "the (watchIdRef s)") (simp_all add: stopTracking_def)

lemma geolocationWatchError_keeps_fix_and_region:
  "location (geolocationWatchError error s) = location s \<and>
   region (geolocationWatchError error s) = region s \<and>
   errorMsg (geolocationWatchError error s) = Some ''Error tracking location''"
  by (simp add: geolocationWatchError_def)

text \<open>
  On Expo, where \<open>getExpoLocation\<close> reads the permission status, a status other than
  \<open>granted\<close> is recorded as such.
\<close>

lemma getLocation_Expo_records_denial:
  "requestForegroundPermissions a = Resolved status \<Longrightarrow> status \<noteq> Granted \<Longrightarrow>
     errorMsg (getLocation Expo a s) = Some ''Permission to access location was denied''"
  by (simp add: getLocation_def getExpoLocation_def)

text \<open>
  Claim C3. A one-shot request that fails because the permission prompt was declined is
  meant to record that condition in \<open>errorMsg\<close> and to leave the fix and the region as
  they were, and on the community geolocation the screen does not record it. The screen
  holds the fix \<open>kyiv\<close> on its initial provider, the location button is pressed, and the
  backend calls the error callback with \<open>PERMISSION_DENIED\<close>. \<open>getRNLocation\<close> rejects
  with the error, \<open>getLocation\<close> drops it and writes \<open>Error getting location\<close>: the
  screen ends in the very state a timeout of the backend leaves. The fix and the region
  are kept. The same request on Expo writes
  \<open>Permission to access location was denied\<close>.
\<close>

theorem declined_permission_not_recorded_on_community:
  "provider located = ReactNativeCommunity \<and>
   errorMsg located = None \<and>
   location located = Some kyiv \<and>
   getCurrentPosition declined = Rejected PERMISSION_DENIED \<and>
   getCurrentPosition timedOut = Rejected TIMEOUT \<and>
   errorMsg (stateOf (step (PressLocation declined) located)) =
     Some ''Error getting location'' \<and>
   errorMsg (stateOf (step (PressLocation declined) located)) \<noteq>
     Some ''Permission to access location was denied'' \<and>
   step (PressLocation declined) located = step (PressLocation timedOut) located \<and>
   location (stateOf (step (PressLocation declined) located)) = Some kyiv \<and>
   region (stateOf (step (PressLocation declined) located)) = region located \<and>
   errorMsg (getLocation Expo declined located) =
     Some ''Permission to access location was denied''"
  by (simp add: located_eq handler_defs input_defs)

section \<open>The state at mount\<close>

text \<open>
  Claim C8, amended. At mount \<open>location\<close> and \<open>errorMsg\<close> are \<open>null\<close>, \<open>isTracking\<close> is
  false, \<open>watchIdRef.current\<close> is \<open>null\<close>, the region is the default region, and the
  active provider is the community geolocation (the backend with the 15 s one-shot
  timeout), not Expo; the first effect asks that provider for the location.
\<close>

theorem initialState_defaults:
  "location initialState = None \<and>
   errorMsg initialState = None \<and>
   isTracking initialState = False \<and>
   watchIdRef initialState = None \<and>
   region initialState = DEFAULT_REGION \<and>
   provider initialState = ReactNativeCommunity \<and>
   step (Mount a) initialState = Returns (getLocation ReactNativeCommunity a initialState)"
  by (simp add: initialState_def providerEffect_def)

text \<open>The claim names Expo, the permission-gated backend, as the provider at mount.\<close>

theorem initialState_provider_counterexample:
  "\<not> (location initialState = None \<and>
       errorMsg initialState = None \<and>
       isTracking initialState = False \<and>
       watchIdRef initialState = None \<and>
       provider initialState = Expo)"
  by (simp add: initialState_def)

section \<open>The options of the community watch\<close>

text \<open>
  Claim C9, amended. A watch that \<open>startTracking\<close> starts on the community geolocation
  is registered with high accuracy, a distance filter of 10 (metres) and an interval of
  5000 (milliseconds); it has no timeout and no maximum age.
\<close>

theorem community_watch_options:
  "watchIdRef (startTracking ReactNativeCommunity a s) = Some (WatchId (nextWatchId s)) \<and>
   geolocationWatches (startTracking ReactNativeCommunity a s) =
     geolocationWatches s @
       [(nextWatchId s,
         \<lparr>enableHighAccuracy = True, timeout = None, maximumAge = None,
          distanceFilter = Some 10, interval = Some 5000\<rparr>)]"
  by (simp add: startTracking_def WATCH_POSITION_OPTIONS_def)

text \<open>The claim has the watch without any time-based setting.\<close>

theorem community_watch_interval_counterexample:
  "map fst (geolocationWatches (startTracking ReactNativeCommunity granted initialState)) = [0] \<and>
   distanceFilter (snd (last (geolocationWatches
      (startTracking ReactNativeCommunity granted initialState)))) = Some 10 \<and>
   interval (snd (last (geolocationWatches
      (startTracking ReactNativeCommunity granted initialState)))) = Some 5000 \<and>
   interval (snd (last (geolocationWatches
      (startTracking ReactNativeCommunity granted initialState)))) \<noteq> None"
  by (simp add: startTracking_def WATCH_POSITION_OPTIONS_def initialState_def)

section \<open>Stopping, and switching the provider while tracking\<close>

text \<open>
  Where \<open>stopTracking\<close> returns, a second call returns the same state: the ref is
  \<open>null\<close> by then and the tracking flag is already false.
\<close>

lemma stopTracking_twice:
  "stopTracking p s = Returns s' \<Longrightarrow> stopTracking p s' = Returns s'"
  by (cases "watchIdRef s"; cases "the (watchIdRef s)")
     (auto simp: stopTracking_def split: if_splits)

lemma stopTracking_without_watch:
  "watchIdRef s = None \<Longrightarrow> stopTracking p s = Returns (s\<lparr>isTracking := False\<rparr>)"
  by (simp add: stopTracking_def)

lemma run_trackingOnCommunity:
  "run trackingOnCommunity initialState =
     Returns \<lparr>location = Some kyiv, errorMsg = None,
              region = \<lparr>latitude = 50.45, longitude = 30.52,
                         latitudeDelta = 0.01, longitudeDelta = 0.01\<rparr>,
              provider = ReactNativeCommunity, isTracking = True,
              watchIdRef = Some (WatchId 0),
              expoSubscriptions = [],
              geolocationWatches = [(0, WATCH_POSITION_OPTIONS)],
              nextSubscription = 0, nextWatchId = 1\<rparr>"
  by (simp add: handler_defs input_defs)

lemma run_trackingOnExpo:
  "run trackingOnExpo initialState =
     Returns \<lparr>location = Some kyiv, errorMsg = None,
              region = \<lparr>latitude = 50.45, longitude = 30.52,
                         latitudeDelta = 0.01, longitudeDelta = 0.01\<rparr>,
              provider = Expo, isTracking = True,
              watchIdRef = Some (SubscriptionRemove 0),
              expoSubscriptions = [(0, WATCH_POSITION_ASYNC_OPTIONS)],
              geolocationWatches = [],
              nextSubscription = 1, nextWatchId = 0\<rparr>"
  by (simp add: handler_defs input_defs)

text \<open>
  Claim C7. \<open>stopTracking\<close> is meant never to raise, and the screen raises here: tracking
  is started on the community geolocation, so the ref holds the number of the watch, and
  the provider is toggled. The effect calls the \<open>stopTracking\<close> of the new render, whose
  provider is Expo, and that one calls the number as a function. The \<open>TypeError\<close> leaves
  the effect with the watch still live, the ref and the tracking flag untouched.
\<close>

theorem stopTracking_throws_on_watch_number:
  "returned (run trackingOnCommunity initialState) \<and>
   watchIdRef (stateOf (run trackingOnCommunity initialState)) = Some (WatchId 0) \<and>
   stopTracking Expo (toggleProvider (stateOf (run trackingOnCommunity initialState))) =
     Throws TypeError (toggleProvider (stateOf (run trackingOnCommunity initialState))) \<and>
   run (trackingOnCommunity @ [PressProvider granted]) initialState =
     Throws TypeError (toggleProvider (stateOf (run trackingOnCommunity initialState))) \<and>
   map fst (geolocationWatches
     (stateOf (run (trackingOnCommunity @ [PressProvider granted]) initialState))) = [0] \<and>
   expoSubscriptions
     (stateOf (run (trackingOnCommunity @ [PressProvider granted]) initialState)) = []"
proof -
  have throws: "run (trackingOnCommunity @ [PressProvider granted]) initialState =
      Throws TypeError (toggleProvider (stateOf (run trackingOnCommunity initialState)))"
    unfolding run_trackingOnCommunity
    by (simp add: trackingOnCommunity_def handler_defs initialState_def granted_def kyiv_def)
  show ?thesis
    unfolding throws
    by (simp add: run_trackingOnCommunity stopTracking_def toggleProvider_def)
qed

text \<open>
  Claim C1. The switch is meant to release the old watch before it requests the new one,
  and the screen does not: tracking runs on Expo, a fix has arrived, and the provider is
  toggled. The effect calls the \<open>stopTracking\<close> of the new render, whose provider is the
  community geolocation, so the \<open>remove\<close> function in the ref is handed to
  \<open>Geolocation.clearWatch\<close> instead of being called, and the Expo subscription stays
  live. The ref is cleared, a community watch is started, and two watches are live. A fix
  that the Expo subscription delivers after the switch is written to \<open>location\<close> and to
  the region.
\<close>

theorem switchProvider_leaves_old_watch_live:
  "returned (run trackingOnExpo initialState) \<and>
   watchIdRef (stateOf (run trackingOnExpo initialState)) = Some (SubscriptionRemove 0) \<and>
   map fst (expoSubscriptions (stateOf (run trackingOnExpo initialState))) = [0] \<and>
   geolocationWatches (stateOf (run trackingOnExpo initialState)) = [] \<and>
   returned (run switchedToCommunity initialState) \<and>
   provider (stateOf (run switchedToCommunity initialState)) = ReactNativeCommunity \<and>
   watchIdRef (stateOf (run switchedToCommunity initialState)) = Some (WatchId 0) \<and>
   map fst (expoSubscriptions (stateOf (run switchedToCommunity initialState))) = [0] \<and>
   map fst (geolocationWatches (stateOf (run switchedToCommunity initialState))) = [0] \<and>
   location (stateOf (run switchedToCommunity initialState)) = Some kyiv \<and>
   location (stateOf (run (switchedToCommunity @ [ExpoFix 0 lviv]) initialState)) = Some lviv \<and>
   region (stateOf (run (switchedToCommunity @ [ExpoFix 0 lviv]) initialState)) =
     \<lparr>latitude = 49.84, longitude = 24.03, latitudeDelta = 0.01, longitudeDelta = 0.01\<rparr>"
proof -
  have after: "run (switchedToCommunity @ [ExpoFix 0 lviv]) initialState =
      step (ExpoFix 0 lviv) (stateOf (run switchedToCommunity initialState))"
    by (simp add: handler_defs input_defs)
  show ?thesis
    unfolding after
    by (simp add: run_trackingOnExpo run_switchedToCommunity expoWatchCallback_def
        updateRegion_def lviv_def)
qed

end
